theory Spec2Isabelle
  imports Main "HOL-Library.Sublist"
begin

section \<open>The setup script: dependency selection (setup.py, lines 357--376)\<close>

text \<open>
  The part of \<^verbatim>\<open>setup.py\<close> that computes \<^verbatim>\<open>install_requires\<close> reads three things
  from the interpreter: the value of \<^verbatim>\<open>sys.version_info.major\<close>, the string
  \<^verbatim>\<open>sys.platform\<close> and the outcome of \<^verbatim>\<open>import win32file\<close>. Each evaluation that
  can raise is modelled by its outcome; the exception classes are the ones the two
  \<^verbatim>\<open>except\<close> clauses of the script tell apart.
\<close>

datatype py_exc =
    AttributeError
  | ImportError
  | ModuleNotFoundError
  | OSError
  | KeyboardInterrupt
  | SystemExit

text \<open>\<^verbatim>\<open>isinstance(e, Exception)\<close>: every class above except the two that derive from
  \<^verbatim>\<open>BaseException\<close> only.\<close>

fun is_Exception :: "py_exc \<Rightarrow> bool" where
  "is_Exception KeyboardInterrupt = False"
| "is_Exception SystemExit = False"
| "is_Exception _ = True"

text \<open>\<^verbatim>\<open>isinstance(e, ImportError)\<close>: \<^verbatim>\<open>ModuleNotFoundError\<close> is a subclass.\<close>

fun is_ImportError :: "py_exc \<Rightarrow> bool" where
  "is_ImportError ImportError = True"
| "is_ImportError ModuleNotFoundError = True"
| "is_ImportError _ = False"

datatype 'a outcome = Value 'a | Raise py_exc

record py_env =
  version_major :: "int outcome"
  platform :: string
  import_win32file :: "unit outcome"

text \<open>Python's \<^verbatim>\<open>needle in haystack\<close> on strings: the needle occurs as a contiguous
  run of characters.\<close>

fun str_contains :: "string \<Rightarrow> string \<Rightarrow> bool" where
  "str_contains needle [] = (needle = [])"
| "str_contains needle (c # cs) = (prefix needle (c # cs) \<or> str_contains needle cs)"

text \<open>
  \<^verbatim>\<open>
  try:
      IS_PY2 = sys.version_info.major == 2
  except Exception:
      IS_PY2 = True
  \<close>
  An exception that is not an instance of \<^verbatim>\<open>Exception\<close> is not caught and ends
  the script (\<open>Inl\<close>).
\<close>

definition IS_PY2 :: "int outcome \<Rightarrow> py_exc + bool" where
  "IS_PY2 major =
     (case major of
        Value m \<Rightarrow> Inr (m = 2)
      | Raise e \<Rightarrow> if is_Exception e then Inr True else Inl e)"

text \<open>
  \<^verbatim>\<open>
  if IS_PY2:
      install_requires = ['portalocker<=1.7.1']
  else:
      install_requires = ['portalocker>=1.4.0']
  \<close>
\<close>

definition portalocker_requires :: "bool \<Rightarrow> string list" where
  "portalocker_requires is_py2 =
     (if is_py2 then [''portalocker<=1.7.1''] else [''portalocker>=1.4.0''])"

text \<open>
  \<^verbatim>\<open>
  if "win" in sys.platform:
      try:
          import win32file
      except ImportError:
          install_requires.append("pywin32>=223")
  \<close>
\<close>

definition pywin32_requires :: "py_env \<Rightarrow> string list \<Rightarrow> py_exc + string list" where
  "pywin32_requires env reqs =
     (if str_contains ''win'' (platform env) then
        (case import_win32file env of
           Value _ \<Rightarrow> Inr reqs
         | Raise e \<Rightarrow> if is_ImportError e then Inr (reqs @ [''pywin32>=223'']) else Inl e)
      else Inr reqs)"

text \<open>The value of \<^verbatim>\<open>install_requires\<close> that reaches the call of \<^verbatim>\<open>setup\<close>, or the
  exception that ended the script before.\<close>

definition install_requires :: "py_env \<Rightarrow> py_exc + string list" where
  "install_requires env =
     (case IS_PY2 (version_major env) of
        Inl e \<Rightarrow> Inl e
      | Inr is_py2 \<Rightarrow> pywin32_requires env (portalocker_requires is_py2))"

section \<open>The rotation engine (spec, section 4.4)\<close>

text \<open>
  The handler module itself is not among the sources of this development; only the
  setup script is. The definitions of this section are therefore written from the
  specification's description of the rotation engine, and each says so.
\<close>

text \<open>Modelled from the spec: the LogTarget of section 3, which the missing handler
  class holds. Of its fields only the two that the rotation engine's decisions read are
  kept: the maximum size threshold in bytes (0 = rotation disabled) and the backup
  retention count.\<close>

record log_target =
  max_size :: nat
  backup_count :: nat

text \<open>Modelled from the spec: the on-disk layout of section 6, \<^verbatim>\<open><path>\<close> (current) and
  \<^verbatim>\<open><path>.1\<close> ... \<^verbatim>\<open><path>.<N>\<close> as rotated backups. \<open>Backup k\<close> stands for
  \<^verbatim>\<open>path.k\<close>; the \<^verbatim>\<open>.gz\<close> variants and the lock file are not modelled.\<close>

datatype file_name = Current | Backup nat

text \<open>Modelled from the spec: the directory that holds the log files, a map from the
  names above to file contents; a name that maps to \<open>None\<close> does not exist.\<close>

type_synonym directory = "file_name \<rightharpoonup> string"

text \<open>Modelled from the spec: \<^verbatim>\<open>current_size()\<close> of section 4.3, the size read from the
  filesystem and not a cached counter. A current file that does not exist yet (delayed
  open) counts as empty.\<close>

definition current_size :: "directory \<Rightarrow> nat" where
  "current_size fs = (case fs Current of None \<Rightarrow> 0 | Some b \<Rightarrow> length b)"

text \<open>Modelled from the spec: the contract of \<^verbatim>\<open>should_rotate(pending_write_size)\<close> in
  section 4.4, "true if \<^verbatim>\<open>current_size + pending_write_size > max_size\<close> and
  \<^verbatim>\<open>max_size > 0\<close>", read as the value of the function.\<close>

definition should_rotate :: "log_target \<Rightarrow> directory \<Rightarrow> nat \<Rightarrow> bool" where
  "should_rotate t fs pending_write_size =
     (current_size fs + pending_write_size > max_size t \<and> max_size t > 0)"

text \<open>Modelled from the spec: the filesystem operations that the steps of \<^verbatim>\<open>rotate()\<close>
  name (exists, delete, rename). A rename of a file that does not exist fails
  (\<open>None\<close>); a rename that succeeds leaves the contents under the new name only.\<close>

definition exists_file :: "directory \<Rightarrow> file_name \<Rightarrow> bool" where
  "exists_file fs n = (fs n \<noteq> None)"

definition remove_file :: "file_name \<Rightarrow> directory \<Rightarrow> directory" where
  "remove_file n fs = fs(n := None)"

definition rename_file :: "file_name \<Rightarrow> file_name \<Rightarrow> directory \<Rightarrow> directory option" where
  "rename_file src dst fs =
     (case fs src of
        None \<Rightarrow> None
      | Some b \<Rightarrow> Some ((fs(src := None))(dst \<mapsto> b)))"

text \<open>Modelled from the spec: one round of step 2 of \<^verbatim>\<open>rotate()\<close>, "if \<^verbatim>\<open>path.k\<close>
  exists, rename it to \<^verbatim>\<open>path.(k+1)\<close> (deleting any existing ... target first)". The
  spec writes the deleted name as \<^verbatim>\<open>path.(backup_count+1)\<close> and calls it the target;
  the target of the rename of \<^verbatim>\<open>path.k\<close> is \<^verbatim>\<open>path.(k+1)\<close>, and that is the file deleted
  here. The spec gives these renames no failure path, so they succeed.\<close>

definition shift_one :: "nat \<Rightarrow> directory \<Rightarrow> directory" where
  "shift_one k fs =
     (if exists_file fs (Backup k) then
        (let fs1 = (if exists_file fs (Backup (k + 1))
                    then remove_file (Backup (k + 1)) fs else fs)
         in case rename_file (Backup k) (Backup (k + 1)) fs1 of
              Some fs2 \<Rightarrow> fs2
            | None \<Rightarrow> fs1)
      else fs)"

text \<open>Modelled from the spec: the loop of step 2, "for k from \<^verbatim>\<open>backup_count-1\<close> down
  to 1"; \<open>shift_from n\<close> runs the rounds \<open>k = n, n - 1, ..., 1\<close> in that order.\<close>

fun shift_from :: "nat \<Rightarrow> directory \<Rightarrow> directory" where
  "shift_from 0 fs = fs"
| "shift_from (Suc k) fs = shift_from k (shift_one (Suc k) fs)"

text \<open>Modelled from the spec: step 2 of \<^verbatim>\<open>rotate()\<close>, "Shift the BackupSet ...; this
  runs only if \<^verbatim>\<open>backup_count > 0\<close>".\<close>

definition shift_backups :: "log_target \<Rightarrow> directory \<Rightarrow> directory" where
  "shift_backups t fs =
     (if backup_count t > 0 then shift_from (backup_count t - 1) fs else fs)"

text \<open>Modelled from the spec: what step 3 of \<^verbatim>\<open>rotate()\<close> depends on outside the
  directory. The spec bounds the number of attempts of the rename without fixing it
  (section 9 leaves it a tunable), so it is a parameter; \<open>rename_failures\<close> is the
  number of attempts the platform refuses before it would let one through.\<close>

record rotate_env =
  rename_attempts :: nat
  rename_failures :: nat

text \<open>Modelled from the spec: the retry loop of step 3, "retry the rename a bounded
  number of times ... before giving up"; \<open>None\<close> is giving up.\<close>

fun rename_retry ::
  "nat \<Rightarrow> nat \<Rightarrow> file_name \<Rightarrow> file_name \<Rightarrow> directory \<Rightarrow> directory option" where
  "rename_retry 0 failures src dst fs = None"
| "rename_retry (Suc attempts) 0 src dst fs = rename_file src dst fs"
| "rename_retry (Suc attempts) (Suc failures) src dst fs =
     rename_retry attempts failures src dst fs"

text \<open>Modelled from the spec: step 3 of \<^verbatim>\<open>rotate()\<close>, "Rename the just-closed current
  file to \<^verbatim>\<open>path.1\<close>", with its degraded mode: after giving up the original path stays
  in place and keeps growing.\<close>

definition rename_current :: "rotate_env \<Rightarrow> directory \<Rightarrow> directory" where
  "rename_current env fs =
     (case rename_retry (rename_attempts env) (rename_failures env) Current (Backup 1) fs of
        Some fs' \<Rightarrow> fs'
      | None \<Rightarrow> fs)"

text \<open>Modelled from the spec: steps 2 and 3 of \<^verbatim>\<open>rotate()\<close> in their order, the part of
  the rotation that renames files. Steps 1, 4 and 5 (closing the stream, compression,
  re-creating the current file) are not modelled.\<close>

definition rotate_renames :: "log_target \<Rightarrow> rotate_env \<Rightarrow> directory \<Rightarrow> directory" where
  "rotate_renames t env fs = rename_current env (shift_backups t fs)"

section \<open>Properties of the dependency selection\<close>

lemma str_contains_iff: "str_contains needle hay \<longleftrightarrow> (\<exists>ps ss. hay = ps @ needle @ ss)"
proof (induction hay)
  case Nil
  then show ?case by auto
next
  case (Cons c cs)
  have "(\<exists>ps ss. c # cs = ps @ needle @ ss) \<longleftrightarrow>
        prefix needle (c # cs) \<or> (\<exists>ps ss. cs = ps @ needle @ ss)"
    using sublist_Cons_right [of needle c cs] by (simp add: sublist_def)
  with Cons show ?case by simp
qed

lemma pin_not_pywin32:
  "''pywin32>=223'' \<notin> set (portalocker_requires b)"
  by (simp add: portalocker_requires_def)

text \<open>
  C8. Whatever the interpreter version, the list pins the locking dependency by the
  major version: when \<^verbatim>\<open>sys.version_info.major\<close> is 2 the list holds
  \<^verbatim>\<open>portalocker<=1.7.1\<close> and not \<^verbatim>\<open>portalocker>=1.4.0\<close>; when it is any other number the
  list holds \<^verbatim>\<open>portalocker>=1.4.0\<close> and not \<^verbatim>\<open>portalocker<=1.7.1\<close>; and no run of the
  script produces a list with both.
\<close>

theorem install_requires_portalocker_pin:
  "(version_major env = Value m \<and> install_requires env = Inr reqs \<longrightarrow>
      (if m = 2
       then ''portalocker<=1.7.1'' \<in> set reqs \<and> ''portalocker>=1.4.0'' \<notin> set reqs
       else ''portalocker>=1.4.0'' \<in> set reqs \<and> ''portalocker<=1.7.1'' \<notin> set reqs))
   \<and> (install_requires env = Inr reqs \<longrightarrow>
      \<not> (''portalocker<=1.7.1'' \<in> set reqs \<and> ''portalocker>=1.4.0'' \<in> set reqs))"
  by (auto simp: install_requires_def IS_PY2_def portalocker_requires_def
        pywin32_requires_def
      split: outcome.splits if_splits sum.splits)

theorem install_requires_portalocker_pin_witness:
  "version_major \<lparr>version_major = Value 2, platform = ''linux2'',
       import_win32file = Raise ImportError\<rparr> = Value 2
   \<and> install_requires \<lparr>version_major = Value 2, platform = ''linux2'',
       import_win32file = Raise ImportError\<rparr> = Inr [''portalocker<=1.7.1'']
   \<and> ''portalocker<=1.7.1'' \<in> set [''portalocker<=1.7.1'']
   \<and> ''portalocker>=1.4.0'' \<notin> set [''portalocker<=1.7.1'']
   \<and> version_major \<lparr>version_major = Value 3, platform = ''win32'',
       import_win32file = Raise ImportError\<rparr> = Value 3
   \<and> install_requires \<lparr>version_major = Value 3, platform = ''win32'',
       import_win32file = Raise ImportError\<rparr>
       = Inr [''portalocker>=1.4.0'', ''pywin32>=223'']
   \<and> ''portalocker>=1.4.0'' \<in> set [''portalocker>=1.4.0'', ''pywin32>=223'']
   \<and> ''portalocker<=1.7.1'' \<notin> set [''portalocker>=1.4.0'', ''pywin32>=223'']"
proof -
  let ?e2 = "\<lparr>version_major = Value 2, platform = ''linux2'',
       import_win32file = Raise ImportError\<rparr>"
  let ?e3 = "\<lparr>version_major = Value 3, platform = ''win32'',
       import_win32file = Raise ImportError\<rparr>"
  have r2: "install_requires ?e2 = Inr [''portalocker<=1.7.1'']"
    by (simp add: install_requires_def IS_PY2_def portalocker_requires_def
          pywin32_requires_def)
  have r3: "install_requires ?e3 = Inr [''portalocker>=1.4.0'', ''pywin32>=223'']"
    by (simp add: install_requires_def IS_PY2_def portalocker_requires_def
          pywin32_requires_def)
  show ?thesis
    using install_requires_portalocker_pin [of ?e2 2 "[''portalocker<=1.7.1'']"]
      install_requires_portalocker_pin [of ?e3 3 "[''portalocker>=1.4.0'', ''pywin32>=223'']"]
      r2 r3
    by simp
qed

text \<open>
  C9. In a run of the script that reaches the call of \<^verbatim>\<open>setup\<close>, the list holds
  \<^verbatim>\<open>pywin32>=223\<close> exactly when \<^verbatim>\<open>win\<close> occurs in \<^verbatim>\<open>sys.platform\<close> and the import of
  \<^verbatim>\<open>win32file\<close> raised \<^verbatim>\<open>ImportError\<close>; under that condition the requirement is
  appended at the end of the list. The test is containment, so \<^verbatim>\<open>darwin\<close> enters the
  branch as \<^verbatim>\<open>win32\<close> does.
\<close>

theorem install_requires_pywin32:
  "(install_requires env = Inr reqs \<longrightarrow>
      (''pywin32>=223'' \<in> set reqs \<longleftrightarrow>
         str_contains ''win'' (platform env)
         \<and> (\<exists>e. import_win32file env = Raise e \<and> is_ImportError e)))
   \<and> (IS_PY2 (version_major env) = Inr b \<and> str_contains ''win'' (platform env)
        \<and> import_win32file env = Raise e \<and> is_ImportError e \<longrightarrow>
      install_requires env = Inr (portalocker_requires b @ [''pywin32>=223'']))
   \<and> str_contains ''win'' ''win32'' \<and> str_contains ''win'' ''darwin''
   \<and> install_requires \<lparr>version_major = Value 3, platform = ''darwin'',
        import_win32file = Raise ImportError\<rparr>
      = Inr [''portalocker>=1.4.0'', ''pywin32>=223'']"
proof (intro conjI impI)
  assume r: "install_requires env = Inr reqs"
  then obtain b where b: "IS_PY2 (version_major env) = Inr b"
    and p: "pywin32_requires env (portalocker_requires b) = Inr reqs"
    by (auto simp: install_requires_def split: sum.splits)
  from p pin_not_pywin32 [of b]
  show "''pywin32>=223'' \<in> set reqs \<longleftrightarrow>
         str_contains ''win'' (platform env)
         \<and> (\<exists>e. import_win32file env = Raise e \<and> is_ImportError e)"
    by (auto simp: pywin32_requires_def split: if_splits outcome.splits)
next
  assume "IS_PY2 (version_major env) = Inr b \<and> str_contains ''win'' (platform env)
        \<and> import_win32file env = Raise e \<and> is_ImportError e"
  then show "install_requires env = Inr (portalocker_requires b @ [''pywin32>=223''])"
    by (simp add: install_requires_def pywin32_requires_def)
next
  show "str_contains ''win'' ''win32''" by simp
next
  show "str_contains ''win'' ''darwin''" by simp
next
  show "install_requires \<lparr>version_major = Value 3, platform = ''darwin'',
        import_win32file = Raise ImportError\<rparr>
      = Inr [''portalocker>=1.4.0'', ''pywin32>=223'']"
    by (simp add: install_requires_def IS_PY2_def portalocker_requires_def
          pywin32_requires_def)
qed

theorem install_requires_pywin32_witness:
  "install_requires \<lparr>version_major = Value 3, platform = ''darwin'',
        import_win32file = Raise ModuleNotFoundError\<rparr>
      = Inr [''portalocker>=1.4.0'', ''pywin32>=223'']
   \<and> ''pywin32>=223'' \<in> set [''portalocker>=1.4.0'', ''pywin32>=223'']
   \<and> str_contains ''win'' ''darwin''
   \<and> install_requires \<lparr>version_major = Value 3, platform = ''linux'',
        import_win32file = Raise ModuleNotFoundError\<rparr>
      = Inr [''portalocker>=1.4.0'']
   \<and> ''pywin32>=223'' \<notin> set [''portalocker>=1.4.0'']
   \<and> \<not> str_contains ''win'' ''linux''
   \<and> IS_PY2 (Value 3) = Inr False"
proof -
  let ?d = "\<lparr>version_major = Value 3, platform = ''darwin'',
        import_win32file = Raise ModuleNotFoundError\<rparr>"
  let ?l = "\<lparr>version_major = Value 3, platform = ''linux'',
        import_win32file = Raise ModuleNotFoundError\<rparr>"
  have py: "IS_PY2 (Value 3) = Inr False"
    by (simp add: IS_PY2_def)
  have rl: "install_requires ?l = Inr [''portalocker>=1.4.0'']"
    by (simp add: install_requires_def IS_PY2_def portalocker_requires_def
          pywin32_requires_def)
  have rd: "install_requires ?d = Inr [''portalocker>=1.4.0'', ''pywin32>=223'']"
    using install_requires_pywin32 [of ?d _ False ModuleNotFoundError] py
    by (simp add: portalocker_requires_def)
  show ?thesis
    using install_requires_pywin32 [of ?l "[''portalocker>=1.4.0'']" False ModuleNotFoundError]
      rl rd py
    by simp
qed

text \<open>
  C10 as stated: whenever evaluating \<^verbatim>\<open>sys.version_info.major\<close> raises, \<^verbatim>\<open>IS_PY2\<close> is
  set to \<^verbatim>\<open>True\<close>. The clause is \<^verbatim>\<open>except Exception\<close>, so \<^verbatim>\<open>KeyboardInterrupt\<close> (an
  exception that derives from \<^verbatim>\<open>BaseException\<close> only) is not caught: no value is
  assigned and the script ends with that exception.
\<close>

theorem IS_PY2_fallback_counterexample:
  "IS_PY2 (Raise KeyboardInterrupt) \<noteq> Inr True
   \<and> install_requires \<lparr>version_major = Raise KeyboardInterrupt, platform = ''linux'',
        import_win32file = Value ()\<rparr> = Inl KeyboardInterrupt"
  by (simp add: IS_PY2_def install_requires_def)

text \<open>
  C10, amended. If evaluating \<^verbatim>\<open>sys.version_info.major\<close> raises an exception that is an
  instance of \<^verbatim>\<open>Exception\<close>, then \<^verbatim>\<open>IS_PY2\<close> is \<^verbatim>\<open>True\<close> and the list that reaches
  \<^verbatim>\<open>setup\<close> holds the Python 2 pin \<^verbatim>\<open>portalocker<=1.7.1\<close> and not
  \<^verbatim>\<open>portalocker>=1.4.0\<close>; an exception outside \<^verbatim>\<open>Exception\<close> ends the script.
\<close>

theorem IS_PY2_fallback:
  "(is_Exception e \<longrightarrow>
      IS_PY2 (Raise e) = Inr True
      \<and> portalocker_requires True = [''portalocker<=1.7.1'']
      \<and> (version_major env = Raise e \<and> install_requires env = Inr reqs \<longrightarrow>
           ''portalocker<=1.7.1'' \<in> set reqs \<and> ''portalocker>=1.4.0'' \<notin> set reqs))
   \<and> (\<not> is_Exception e \<longrightarrow>
      IS_PY2 (Raise e) = Inl e
      \<and> (version_major env = Raise e \<longrightarrow> install_requires env = Inl e))"
  by (auto simp: install_requires_def IS_PY2_def portalocker_requires_def
        pywin32_requires_def
      split: outcome.splits if_splits sum.splits)

theorem IS_PY2_fallback_witness:
  "is_Exception AttributeError
   \<and> IS_PY2 (Raise AttributeError) = Inr True
   \<and> install_requires \<lparr>version_major = Raise AttributeError, platform = ''linux2'',
        import_win32file = Value ()\<rparr> = Inr [''portalocker<=1.7.1'']
   \<and> ''portalocker<=1.7.1'' \<in> set [''portalocker<=1.7.1'']
   \<and> \<not> is_Exception SystemExit
   \<and> install_requires \<lparr>version_major = Raise SystemExit, platform = ''linux2'',
        import_win32file = Value ()\<rparr> = Inl SystemExit"
proof -
  let ?a = "\<lparr>version_major = Raise AttributeError, platform = ''linux2'',
        import_win32file = Value ()\<rparr>"
  let ?s = "\<lparr>version_major = Raise SystemExit, platform = ''linux2'',
        import_win32file = Value ()\<rparr>"
  have ra: "install_requires ?a = Inr [''portalocker<=1.7.1'']"
    by (simp add: install_requires_def IS_PY2_def portalocker_requires_def
          pywin32_requires_def)
  show ?thesis
    using IS_PY2_fallback [of AttributeError ?a "[''portalocker<=1.7.1'']"]
      IS_PY2_fallback [of SystemExit ?s] ra
    by simp
qed

section \<open>Properties of the rotation engine\<close>

lemma rename_retry_eq:
  "rename_retry attempts failures src dst fs =
     (if failures < attempts then rename_file src dst fs else None)"
  by (induction attempts failures src dst fs rule: rename_retry.induct) auto

lemma shift_one_apply:
  "shift_one k fs n =
     (if fs (Backup k) = None then fs n
      else if n = Backup (Suc k) then fs (Backup k)
      else if n = Backup k then None
      else fs n)"
  by (auto simp: shift_one_def exists_file_def rename_file_def remove_file_def Let_def)

lemma shift_from_Current: "shift_from k fs Current = fs Current"
  by (induction k arbitrary: fs) (auto simp: shift_one_apply)

lemma shift_from_Backup:
  "shift_from n fs (Backup j) =
     (if 2 \<le> j \<and> j \<le> Suc n then
        (case fs (Backup (j - 1)) of
           Some b \<Rightarrow> Some b
         | None \<Rightarrow> if j = Suc n then fs (Backup j) else None)
      else if j = 1 \<and> 1 \<le> n then None
      else fs (Backup j))"
proof (induction n arbitrary: fs)
  case 0
  then show ?case by (auto split: option.splits)
next
  case (Suc n)
  show ?case
  proof (cases "n = 0")
    case True
    then show ?thesis
      by (simp only: shift_from.simps Suc.IH)
         (auto simp: shift_one_apply split: option.splits)
  next
    case False
    then have "1 \<le> n" by simp
    then show ?thesis
      by (simp only: shift_from.simps Suc.IH)
         (auto simp: shift_one_apply split: option.splits)
  qed
qed

text \<open>
  C2. \<^verbatim>\<open>should_rotate(pending_write_size)\<close> is true if and only if
  \<^verbatim>\<open>current_size + pending_write_size > max_size\<close> and \<^verbatim>\<open>max_size > 0\<close>; with a
  \<^verbatim>\<open>max_size\<close> of 0 it is false for every current size and every pending write size.
\<close>

theorem should_rotate_iff:
  "(should_rotate t fs pending \<longleftrightarrow>
      current_size fs + pending > max_size t \<and> max_size t > 0)
   \<and> \<not> should_rotate (t\<lparr>max_size := 0\<rparr>) fs pending"
  by (simp add: should_rotate_def)

text \<open>
  C4. When \<^verbatim>\<open>backup_count > 0\<close>, the shift renames every existing \<^verbatim>\<open>path.k\<close> with
  \<open>1 \<le> k \<le> backup_count - 1\<close> to \<^verbatim>\<open>path.(k+1)\<close>, in the order from \<^verbatim>\<open>backup_count-1\<close>
  down to 1: afterwards \<^verbatim>\<open>path.(k+1)\<close> holds what \<^verbatim>\<open>path.k\<close> held, whatever was under
  that name before, and \<^verbatim>\<open>path.k\<close> holds what \<^verbatim>\<open>path.(k-1)\<close> was renamed to it, or
  nothing; a \<^verbatim>\<open>path.k\<close> that does not exist is not renamed and its target is not
  deleted; the names outside \<open>1..backup_count\<close> and the current file are untouched.
  Then the current file is renamed to \<^verbatim>\<open>path.1\<close> (when it exists and one of the
  bounded attempts goes through; otherwise the directory stays as the shift left it).
  When \<^verbatim>\<open>backup_count\<close> is 0 the shift changes nothing.
\<close>

theorem rotate_renames_shift_then_current:
  "(0 < backup_count t \<and> 1 \<le> k \<and> k < backup_count t \<and> exists_file fs (Backup k) \<longrightarrow>
      shift_backups t fs (Backup (k + 1)) = fs (Backup k)
      \<and> shift_backups t fs (Backup k) = (if 2 \<le> k then fs (Backup (k - 1)) else None))
   \<and> (0 < backup_count t \<and> 1 \<le> k \<and> k < backup_count t \<and> \<not> exists_file fs (Backup k) \<longrightarrow>
      shift_backups t fs (Backup (k + 1))
        = (if k + 1 = backup_count t then fs (Backup (k + 1)) else None))
   \<and> (j = 0 \<or> backup_count t < j \<longrightarrow> shift_backups t fs (Backup j) = fs (Backup j))
   \<and> shift_backups t fs Current = fs Current
   \<and> (backup_count t = 0 \<longrightarrow> shift_backups t fs = fs)
   \<and> (rename_failures env < rename_attempts env \<and> exists_file fs Current \<longrightarrow>
      rotate_renames t env fs (Backup 1) = fs Current
      \<and> rotate_renames t env fs Current = None
      \<and> (i \<noteq> 1 \<longrightarrow> rotate_renames t env fs (Backup i) = shift_backups t fs (Backup i)))
   \<and> (\<not> (rename_failures env < rename_attempts env \<and> exists_file fs Current) \<longrightarrow>
      rotate_renames t env fs = shift_backups t fs)"
proof (intro conjI impI)
  assume "0 < backup_count t \<and> 1 \<le> k \<and> k < backup_count t \<and> exists_file fs (Backup k)"
  then show "shift_backups t fs (Backup (k + 1)) = fs (Backup k)"
    by (auto simp: shift_backups_def shift_from_Backup exists_file_def
        split: option.splits)
next
  assume "0 < backup_count t \<and> 1 \<le> k \<and> k < backup_count t \<and> exists_file fs (Backup k)"
  then show "shift_backups t fs (Backup k) = (if 2 \<le> k then fs (Backup (k - 1)) else None)"
    by (auto simp: shift_backups_def shift_from_Backup exists_file_def
        split: option.splits)
next
  assume "0 < backup_count t \<and> 1 \<le> k \<and> k < backup_count t \<and> \<not> exists_file fs (Backup k)"
  then show "shift_backups t fs (Backup (k + 1))
        = (if k + 1 = backup_count t then fs (Backup (k + 1)) else None)"
    by (auto simp: shift_backups_def shift_from_Backup exists_file_def
        split: option.splits)
next
  assume "j = 0 \<or> backup_count t < j"
  then show "shift_backups t fs (Backup j) = fs (Backup j)"
    by (auto simp: shift_backups_def shift_from_Backup)
next
  show "shift_backups t fs Current = fs Current"
    by (simp add: shift_backups_def shift_from_Current)
next
  assume "backup_count t = 0"
  then show "shift_backups t fs = fs"
    by (simp add: shift_backups_def)
next
  assume ok: "rename_failures env < rename_attempts env \<and> exists_file fs Current"
  then obtain b where fb: "fs Current = Some b"
    by (auto simp: exists_file_def)
  have sc: "shift_backups t fs Current = fs Current"
    by (simp add: shift_backups_def shift_from_Current)
  note b = sc [unfolded fb] fb
  with ok have r: "rotate_renames t env fs
      = ((shift_backups t fs)(Current := None))(Backup 1 \<mapsto> b)"
    by (simp add: rotate_renames_def rename_current_def rename_retry_eq rename_file_def)
  show "rotate_renames t env fs (Backup 1) = fs Current"
    using r b by simp
  show "rotate_renames t env fs Current = None"
    using r by simp
  show "rotate_renames t env fs (Backup i) = shift_backups t fs (Backup i)" if "i \<noteq> 1"
    using r that by simp
next
  assume "\<not> (rename_failures env < rename_attempts env \<and> exists_file fs Current)"
  then show "rotate_renames t env fs = shift_backups t fs"
    by (auto simp: rotate_renames_def rename_current_def rename_retry_eq rename_file_def
        shift_backups_def shift_from_Current exists_file_def
        split: option.splits)
qed

theorem rotate_renames_shift_then_current_witness:
  "exists_file [Current \<mapsto> ''c'', Backup 1 \<mapsto> ''one'', Backup 2 \<mapsto> ''two'',
       Backup 3 \<mapsto> ''old''] (Backup 2)
   \<and> shift_backups \<lparr>max_size = 100, backup_count = 3\<rparr>
       [Current \<mapsto> ''c'', Backup 1 \<mapsto> ''one'', Backup 2 \<mapsto> ''two'', Backup 3 \<mapsto> ''old'']
       (Backup 3) = Some ''two''
   \<and> shift_backups \<lparr>max_size = 100, backup_count = 3\<rparr>
       [Current \<mapsto> ''c'', Backup 1 \<mapsto> ''one'', Backup 2 \<mapsto> ''two'', Backup 3 \<mapsto> ''old'']
       (Backup 2) = Some ''one''
   \<and> rotate_renames \<lparr>max_size = 100, backup_count = 3\<rparr>
       \<lparr>rename_attempts = 3, rename_failures = 1\<rparr>
       [Current \<mapsto> ''c'', Backup 1 \<mapsto> ''one'', Backup 2 \<mapsto> ''two'', Backup 3 \<mapsto> ''old'']
       (Backup 1) = Some ''c''
   \<and> rotate_renames \<lparr>max_size = 100, backup_count = 3\<rparr>
       \<lparr>rename_attempts = 3, rename_failures = 1\<rparr>
       [Current \<mapsto> ''c'', Backup 1 \<mapsto> ''one'', Backup 2 \<mapsto> ''two'', Backup 3 \<mapsto> ''old'']
       Current = None
   \<and> \<not> exists_file [Current \<mapsto> ''c'', Backup 2 \<mapsto> ''two''] (Backup 1)
   \<and> shift_backups \<lparr>max_size = 100, backup_count = 3\<rparr>
       [Current \<mapsto> ''c'', Backup 2 \<mapsto> ''two''] (Backup 2) = None
   \<and> shift_backups \<lparr>max_size = 100, backup_count = 3\<rparr>
       [Current \<mapsto> ''c'', Backup 2 \<mapsto> ''two''] (Backup 4) = None
   \<and> rotate_renames \<lparr>max_size = 100, backup_count = 3\<rparr>
       \<lparr>rename_attempts = 3, rename_failures = 3\<rparr>
       [Current \<mapsto> ''c'', Backup 2 \<mapsto> ''two'']
     = shift_backups \<lparr>max_size = 100, backup_count = 3\<rparr>
       [Current \<mapsto> ''c'', Backup 2 \<mapsto> ''two'']
   \<and> shift_backups \<lparr>max_size = 100, backup_count = 0\<rparr>
       [Current \<mapsto> ''c'', Backup 1 \<mapsto> ''one'']
     = [Current \<mapsto> ''c'', Backup 1 \<mapsto> ''one'']"
proof -
  let ?t = "\<lparr>max_size = 100, backup_count = 3\<rparr>"
  let ?tz = "\<lparr>max_size = 100, backup_count = 0\<rparr>"
  let ?ok = "\<lparr>rename_attempts = 3, rename_failures = 1\<rparr>"
  let ?no = "\<lparr>rename_attempts = 3, rename_failures = 3\<rparr>"
  let ?fs = "[Current \<mapsto> ''c'', Backup 1 \<mapsto> ''one'', Backup 2 \<mapsto> ''two'',
       Backup 3 \<mapsto> ''old'']"
  let ?gap = "[Current \<mapsto> ''c'', Backup 2 \<mapsto> ''two'']"
  let ?one = "[Current \<mapsto> ''c'', Backup 1 \<mapsto> ''one'']"
  have full: "exists_file ?fs (Backup 2)
      \<and> shift_backups ?t ?fs (Backup 3) = Some ''two''
      \<and> shift_backups ?t ?fs (Backup 2) = Some ''one''
      \<and> rotate_renames ?t ?ok ?fs (Backup 1) = Some ''c''
      \<and> rotate_renames ?t ?ok ?fs Current = None"
    using rotate_renames_shift_then_current
      [where t = ?t and k = 2 and fs = ?fs and j = 4 and env = ?ok and i = 2]
    by (simp add: exists_file_def)
  have gap: "\<not> exists_file ?gap (Backup 1)
      \<and> shift_backups ?t ?gap (Backup 2) = None
      \<and> shift_backups ?t ?gap (Backup 4) = None
      \<and> rotate_renames ?t ?no ?gap = shift_backups ?t ?gap"
    using rotate_renames_shift_then_current
      [where t = ?t and k = 1 and fs = ?gap and j = 4 and env = ?no and i = 2]
    by (simp add: exists_file_def numeral_2_eq_2)
  have none: "shift_backups ?tz ?one = ?one"
    using rotate_renames_shift_then_current
      [where t = ?tz and k = 1 and fs = ?one and j = 4 and env = ?no and i = 2]
    by simp
  from full gap none show ?thesis by blast
qed

end
